theory Spec2Isabelle
  imports
    Main
    "HOL-Library.List_Lexorder"
    "HOL-Library.Char_ord"
    "HOL-Library.Multiset"
begin

section \<open>The PDF merger of \<^verbatim>\<open>src/main.py\<close>\<close>

text \<open>
  The program scans the directory \<^verbatim>\<open>input\<close> for \<^verbatim>\<open>*.pdf\<close> files, validates
  each of them, sorts the valid ones by lower-cased name and appends their pages to
  one \<^verbatim>\<open>PdfWriter\<close>, which it writes to the directory \<^verbatim>\<open>output\<close>.

  The embedding follows the source function by function. What the source reads from
  outside (the file system, the PyPDF2 library, the clock) is a parameter of the
  model, the record \<open>env\<close>. Every call of the source that can raise is a branch that
  yields the exception as a value. The exceptions are those that
  \<^verbatim>\<open>except Exception\<close> catches; an interrupt of the process is outside the model.

  A file name is a string in an encoding that keeps the order of Python's strings
  (UTF-8 does: comparing its bytes compares the code points). \<^verbatim>\<open>str.lower()\<close>
  follows the Unicode tables, which are not part of the repository; it is the
  parameter \<open>str_lower\<close> of the environment.

  Of the log, the model keeps the warnings of discovery and the errors of the merge
  loop. \<^verbatim>\<open>setup_logging\<close> and \<^verbatim>\<open>print_merge_summary\<close> only write log lines and are
  not modelled. The clock readings of \<^verbatim>\<open>time.time()\<close> are integers, in hundredths
  of a second.
\<close>

subsection \<open>Values of the outside world\<close>

text \<open>
  A Python exception caught by \<^verbatim>\<open>except Exception as e\<close>:
  \<^verbatim>\<open>type(e).__name__\<close> and \<^verbatim>\<open>str(e)\<close>.
\<close>

datatype exn = Exn (exn_type: string) (exn_str: string)

text \<open>A page object of the codec. Pages are opaque; the number only tells them apart.\<close>

datatype page = Page nat

text \<open>
  A \<^verbatim>\<open>PdfReader\<close> that was opened: \<open>slots\<close> is \<^verbatim>\<open>reader.pages\<close>, where reading
  the entry at an index gives a page or raises; \<open>len_error\<close> is set when
  \<^verbatim>\<open>len(reader.pages)\<close> itself raises.
\<close>

record reader =
  len_error :: "exn option"
  slots :: "(exn + page) list"

text \<open>
  A file of the input directory at one moment: whether it may be read, its bytes,
  and what the codec makes of it when it opens it.
\<close>

record file_state =
  r_ok :: bool
  data :: "nat list"
  pdf :: "exn + reader"

text \<open>
  A snapshot of the input directory. \<open>files\<close> are its files by name; a name with no
  file is a dangling entry (a broken link, or a file removed since the listing).
  \<open>exists_error\<close> and \<open>stat_error\<close> give, for each name, the exception that
  \<^verbatim>\<open>Path.exists()\<close> and \<^verbatim>\<open>Path.stat()\<close> raise on it, if any: \<^verbatim>\<open>exists()\<close> raises
  every \<^verbatim>\<open>OSError\<close> but "no such file" and its like (\<^verbatim>\<open>PermissionError\<close> in a
  directory that may be listed but not searched), and \<^verbatim>\<open>stat()\<close> raises whenever the
  system call fails. The three fields are independent: \<^verbatim>\<open>stat()\<close> can raise on a
  file that \<^verbatim>\<open>exists()\<close> has found or that the codec has opened.
\<close>

record filesystem =
  files :: "string \<Rightarrow> file_state option"
  exists_error :: "string \<Rightarrow> exn option"
  stat_error :: "string \<Rightarrow> exn option"

text \<open>
  What a file of the output directory holds: bytes, the document written by
  \<^verbatim>\<open>writer.write\<close>, or the remains of a write that raised.
\<close>

datatype stored = File_bytes "nat list" | Merged_pdf "page list" | Truncated_file

text \<open>
  What the two calls after the write observe at the destination:
  \<^verbatim>\<open>output_file.exists()\<close> raises, or returns \<^verbatim>\<open>False\<close>, or returns \<^verbatim>\<open>True\<close> and
  then \<^verbatim>\<open>output_file.stat()\<close> raises or gives the size.
\<close>

datatype dest_check = Exists_raises exn | Absent | Stat_raises exn | Present nat

text \<open>
  Where a failing \<^verbatim>\<open>shutil.copy2\<close> raises: before the destination is written (it
  is left as it was), while it is written (a truncated file is left), or after it is
  written, when the copy of the metadata fails (the complete bytes are left).
\<close>

datatype copy_stage = Before_write | During_write | After_write

record 'e directory =
  d_read :: bool
  d_write :: bool
  entries :: 'e

text \<open>
  The environment of one run. The input directory is read in two passes (discovery,
  then merge or copy); each pass has its own snapshot, so that a file may change
  between the passes. Within a pass, what \<^verbatim>\<open>exists()\<close> and \<^verbatim>\<open>stat()\<close> do is given
  apart from the files, so that these calls may fail on a file that is there.
\<close>

record env =
  pypdf2_importable :: bool
  input_dir :: "string list directory option"
  output_dir :: "(string \<rightharpoonup> stored) directory option"
  mkdir :: "string \<Rightarrow> exn + bool \<times> bool"
  at_discovery :: filesystem
  at_merge :: filesystem
  add_page_error :: "page \<Rightarrow> exn option"
  open_wb_error :: "string \<Rightarrow> exn option"
  write_error :: "page list \<Rightarrow> exn option"
  dest_after_write :: dest_check
  copy2_error :: "string \<Rightarrow> (exn \<times> copy_stage) option"
  str_lower :: "string \<Rightarrow> string"
  timestamp :: string
  time_start :: int
  time_end :: int

subsection \<open>Library calls\<close>

text \<open>\<^verbatim>\<open>Path.exists()\<close>: whether the file is there, or the exception of the call.\<close>

definition path_exists :: "filesystem \<Rightarrow> string \<Rightarrow> exn + bool" where
  "path_exists fs f =
     (case exists_error fs f of Some e \<Rightarrow> Inl e | None \<Rightarrow> Inr (files fs f \<noteq> None))"

text \<open>\<^verbatim>\<open>os.access(path, os.R_OK)\<close>: it returns \<^verbatim>\<open>False\<close> where the system call fails.\<close>

definition os_access_R_OK :: "filesystem \<Rightarrow> string \<Rightarrow> bool" where
  "os_access_R_OK fs f = (case files fs f of None \<Rightarrow> False | Some st \<Rightarrow> r_ok st)"

definition FileNotFoundError :: exn where
  "FileNotFoundError = Exn ''FileNotFoundError'' ''No such file or directory''"

definition PermissionError :: exn where
  "PermissionError = Exn ''PermissionError'' ''Permission denied''"

definition IndexError :: exn where
  "IndexError = Exn ''IndexError'' ''sequence index out of range''"

text \<open>\<^verbatim>\<open>path.stat().st_size\<close>: the number of bytes, or the exception of the call.\<close>

definition stat_st_size :: "filesystem \<Rightarrow> string \<Rightarrow> exn + nat" where
  "stat_st_size fs f =
     (case stat_error fs f of
        Some e \<Rightarrow> Inl e
      | None \<Rightarrow>
          (case files fs f of
             None \<Rightarrow> Inl FileNotFoundError
           | Some st \<Rightarrow> Inr (length (data st))))"

text \<open>\<^verbatim>\<open>PdfReader(str(path))\<close>: opens the file, then parses it.\<close>

definition PdfReader :: "filesystem \<Rightarrow> string \<Rightarrow> exn + reader" where
  "PdfReader fs f =
     (case files fs f of
        None \<Rightarrow> Inl FileNotFoundError
      | Some st \<Rightarrow> if r_ok st then pdf st else Inl PermissionError)"

text \<open>\<^verbatim>\<open>len(reader.pages)\<close>.\<close>

definition len_pages :: "reader \<Rightarrow> exn + nat" where
  "len_pages r = (case len_error r of Some e \<Rightarrow> Inl e | None \<Rightarrow> Inr (length (slots r)))"

text \<open>\<^verbatim>\<open>reader.pages[page_num]\<close>.\<close>

definition get_page :: "reader \<Rightarrow> nat \<Rightarrow> exn + page" where
  "get_page r i = (if i < length (slots r) then slots r ! i else Inl IndexError)"

text \<open>
  \<^verbatim>\<open>writer.add_page(page)\<close>: the page is appended to the writer's pages, or the call
  raises and the writer is as before.
\<close>

definition add_page :: "env \<Rightarrow> page list \<Rightarrow> page \<Rightarrow> exn + page list" where
  "add_page env writer p =
     (case add_page_error env p of Some e \<Rightarrow> Inl e | None \<Rightarrow> Inr (writer @ [p]))"

text \<open>
  \<^verbatim>\<open>sorted(xs, key=k)\<close>: Python's sort is stable and ascending in the key; strings
  compare lexicographically, character by character.
\<close>

definition sorted_py :: "('a \<Rightarrow> 'k::linorder) \<Rightarrow> 'a list \<Rightarrow> 'a list" where
  "sorted_py k xs = sort_key k xs"

subsection \<open>\<^verbatim>\<open>sort_files_by_preference\<close>\<close>

text \<open>
  A path of the input directory is modelled by its \<^verbatim>\<open>name\<close>. The first argument
  is \<^verbatim>\<open>str.lower\<close>.
\<close>

definition sort_files_by_preference ::
  "(string \<Rightarrow> string) \<Rightarrow> string list \<Rightarrow> string list" where
  "sort_files_by_preference lower pdf_files = sorted_py (\<lambda>x. lower x) pdf_files"

subsection \<open>\<^verbatim>\<open>find_and_validate_pdf_files\<close>\<close>

definition ends_with :: "string \<Rightarrow> string \<Rightarrow> bool" where
  "ends_with s suf =
     (length suf \<le> length s \<and> drop (length s - length suf) s = suf)"

text \<open>\<^verbatim>\<open>input_dir.glob("*.pdf")\<close>, in the order the directory enumerates its entries.\<close>

definition glob_pdf :: "string list \<Rightarrow> string list" where
  "glob_pdf names = filter (\<lambda>n. ends_with n ''.pdf'') names"

text \<open>The warnings of the validation loop, one for each reason to skip a file.\<close>

datatype reject =
  Not_found | No_read_permission | Empty_file | Invalid_pdf exn | No_pages

text \<open>
  The body of the validation loop for one candidate: \<open>Inr None\<close> when the file is
  appended to \<^verbatim>\<open>valid_files\<close>, \<open>Inr (Some r)\<close> when it is skipped with warning \<open>r\<close>
  (\<^verbatim>\<open>continue\<close>), and \<open>Inl e\<close> when an exception leaves the loop and the function:
  the calls of \<^verbatim>\<open>exists()\<close> and \<^verbatim>\<open>stat()\<close> stand outside the \<^verbatim>\<open>try\<close> block.
\<close>

definition validate_one :: "filesystem \<Rightarrow> string \<Rightarrow> exn + reject option" where
  "validate_one fs pdf_file =
     (case path_exists fs pdf_file of
        Inl e \<Rightarrow> Inl e
      | Inr there \<Rightarrow>
          if \<not> there then Inr (Some Not_found)
          else if \<not> os_access_R_OK fs pdf_file then Inr (Some No_read_permission)
          else
            (case stat_st_size fs pdf_file of
               Inl e \<Rightarrow> Inl e
             | Inr file_size \<Rightarrow>
                 if file_size = 0 then Inr (Some Empty_file)
                 else
                   (case PdfReader fs pdf_file of
                      Inl e \<Rightarrow> Inr (Some (Invalid_pdf e))
                    | Inr reader \<Rightarrow>
                        (case len_pages reader of
                           Inl e \<Rightarrow> Inr (Some (Invalid_pdf e))
                         | Inr page_count \<Rightarrow>
                             if page_count = 0 then Inr (Some No_pages) else Inr None))))"

fun validate_loop ::
  "filesystem \<Rightarrow> string list \<Rightarrow> string list \<times> (string \<times> reject) list \<Rightarrow>
     exn + string list \<times> (string \<times> reject) list" where
  "validate_loop fs [] acc = Inr acc"
| "validate_loop fs (pdf_file # rest) (valid_files, warnings) =
     (case validate_one fs pdf_file of
        Inl e \<Rightarrow> Inl e
      | Inr None \<Rightarrow> validate_loop fs rest (valid_files @ [pdf_file], warnings)
      | Inr (Some r) \<Rightarrow> validate_loop fs rest (valid_files, warnings @ [(pdf_file, r)]))"

definition find_and_validate_pdf_files ::
  "filesystem \<Rightarrow> string list directory \<Rightarrow> exn + string list \<times> (string \<times> reject) list" where
  "find_and_validate_pdf_files fs input =
     (let pdf_files = glob_pdf (entries input) in
      if pdf_files = [] then Inr ([], []) else validate_loop fs pdf_files ([], []))"

subsection \<open>\<^verbatim>\<open>merge_pdf_files\<close>\<close>

record info =
  filename :: string
  pages :: nat
  file_size :: nat

text \<open>
  The result dictionary: the keys of the successful result, or \<^verbatim>\<open>error\<close> and, when
  an exception was caught, \<^verbatim>\<open>error_type\<close>.
\<close>

datatype merge_result =
  Success
    (output_file: string) (total_pages: nat) (total_files: nat)
    (output_size: nat) (merge_time: int) (file_info: "info list")
| Failure (error: string) (error_type: "string option")

fun success :: "merge_result \<Rightarrow> bool" where
  "success (Success _ _ _ _ _ _) = True"
| "success (Failure _ _) = False"

text \<open>
  The local variables of the merge loop: the writer's pages, the counter, the
  per-file list, and the errors logged by the inner \<^verbatim>\<open>except\<close>.
\<close>

record merge_state =
  st_writer :: "page list"
  st_total_pages :: nat
  st_file_info :: "info list"
  st_failed :: "(string \<times> exn) list"

definition initial_state :: merge_state where
  "initial_state = \<lparr>st_writer = [], st_total_pages = 0, st_file_info = [], st_failed = []\<rparr>"

text \<open>
  The loop \<^verbatim>\<open>for page_num in range(page_count)\<close>: the writer after the loop, and the
  exception that ended it, if any. Pages added before the exception stay in the writer.
\<close>

fun add_pages :: "env \<Rightarrow> reader \<Rightarrow> nat list \<Rightarrow> page list \<Rightarrow> page list \<times> exn option" where
  "add_pages env r [] writer = (writer, None)"
| "add_pages env r (page_num # rest) writer =
     (case get_page r page_num of
        Inl e \<Rightarrow> (writer, Some e)
      | Inr p \<Rightarrow>
          (case add_page env writer p of
             Inl e \<Rightarrow> (writer, Some e)
           | Inr writer' \<Rightarrow> add_pages env r rest writer'))"

definition log_failure :: "string \<Rightarrow> exn \<Rightarrow> merge_state \<Rightarrow> merge_state" where
  "log_failure pdf_file e st = st\<lparr>st_failed := st_failed st @ [(pdf_file, e)]\<rparr>"

text \<open>The body of the loop over the files, with its \<^verbatim>\<open>try\<close> and \<^verbatim>\<open>except\<close>.\<close>

definition merge_one :: "env \<Rightarrow> string \<Rightarrow> merge_state \<Rightarrow> merge_state" where
  "merge_one env pdf_file st =
     (case PdfReader (at_merge env) pdf_file of
        Inl e \<Rightarrow> log_failure pdf_file e st
      | Inr reader \<Rightarrow>
          (case len_pages reader of
             Inl e \<Rightarrow> log_failure pdf_file e st
           | Inr page_count \<Rightarrow>
               (case add_pages env reader [0..<page_count] (st_writer st) of
                  (w, Some e) \<Rightarrow> log_failure pdf_file e (st\<lparr>st_writer := w\<rparr>)
                | (w, None) \<Rightarrow>
                    (let st1 = st\<lparr>st_writer := w,
                                   st_total_pages := st_total_pages st + page_count\<rparr>
                     in case stat_st_size (at_merge env) pdf_file of
                          Inl e \<Rightarrow> log_failure pdf_file e st1
                        | Inr sz \<Rightarrow>
                            st1\<lparr>st_file_info := st_file_info st1 @
                              [\<lparr>filename = pdf_file, pages = page_count, file_size = sz\<rparr>]\<rparr>))))"

fun merge_loop :: "env \<Rightarrow> string list \<Rightarrow> merge_state \<Rightarrow> merge_state" where
  "merge_loop env [] st = st"
| "merge_loop env (pdf_file # rest) st = merge_loop env rest (merge_one env pdf_file st)"

text \<open>The dictionary returned by the outer \<^verbatim>\<open>except\<close>.\<close>

definition failure_of :: "exn \<Rightarrow> merge_result" where
  "failure_of e = Failure (exn_str e) (Some (exn_type e))"

text \<open>
  \<^verbatim>\<open>output_file.exists()\<close> and \<^verbatim>\<open>output_file.stat().st_size\<close> after the write, as
  \<open>dest_after_write\<close> gives them. Either call can raise.
\<close>

definition dest_exists :: "env \<Rightarrow> exn + bool" where
  "dest_exists env =
     (case dest_after_write env of
        Exists_raises e \<Rightarrow> Inl e
      | Absent \<Rightarrow> Inr False
      | Stat_raises e \<Rightarrow> Inr True
      | Present n \<Rightarrow> Inr True)"

definition dest_st_size :: "env \<Rightarrow> exn + nat" where
  "dest_st_size env =
     (case dest_after_write env of
        Exists_raises e \<Rightarrow> Inl e
      | Absent \<Rightarrow> Inl FileNotFoundError
      | Stat_raises e \<Rightarrow> Inl e
      | Present n \<Rightarrow> Inr n)"

text \<open>
  The function returns the result dictionary; the second component is what the
  call put into the destination: nothing when the file could not be opened, a
  truncated file when \<^verbatim>\<open>writer.write\<close> raised, the writer's pages otherwise.
  Everything after the loop stands in the outer \<^verbatim>\<open>try\<close>.
\<close>

definition merge_pdf_files ::
  "env \<Rightarrow> string list \<Rightarrow> string \<Rightarrow> merge_result \<times> stored option" where
  "merge_pdf_files env pdf_files dest =
     (let st = merge_loop env pdf_files initial_state in
      case open_wb_error env dest of
        Some e \<Rightarrow> (failure_of e, None)
      | None \<Rightarrow>
          (case write_error env (st_writer st) of
             Some e \<Rightarrow> (failure_of e, Some Truncated_file)
           | None \<Rightarrow>
               (let elapsed = time_end env - time_start env;
                    written = Some (Merged_pdf (st_writer st))
                in case dest_exists env of
                     Inl e \<Rightarrow> (failure_of e, written)
                   | Inr there \<Rightarrow>
                       if there then
                         (case dest_st_size env of
                            Inl e \<Rightarrow> (failure_of e, written)
                          | Inr sz \<Rightarrow>
                              (Success dest (st_total_pages st) (length pdf_files)
                                 sz elapsed (st_file_info st),
                               written))
                       else (Failure ''Output file not created'' None, written))))"

subsection \<open>\<^verbatim>\<open>merge_pdfs\<close>\<close>

definition check_system_requirements :: "env \<Rightarrow> bool" where
  "check_system_requirements env = pypdf2_importable env"

text \<open>
  \<^verbatim>\<open>if not directory.exists(): directory.mkdir(...)\<close>: the directory as it is, or a
  new directory without entries, or the exception of \<^verbatim>\<open>mkdir\<close>.
\<close>

definition ensure_directory ::
  "env \<Rightarrow> string \<Rightarrow> 'e \<Rightarrow> 'e directory option \<Rightarrow> exn + 'e directory" where
  "ensure_directory env dir_name no_entries d =
     (case d of
        Some dir \<Rightarrow> Inr dir
      | None \<Rightarrow>
          (case mkdir env dir_name of
             Inl e \<Rightarrow> Inl e
           | Inr (r, w) \<Rightarrow> Inr \<lparr>d_read = r, d_write = w, entries = no_entries\<rparr>))"

text \<open>
  \<open>Inr\<close> holds both directories when the function returns \<^verbatim>\<open>True\<close>; \<open>Inl\<close> holds
  the output directory as the function leaves it when it returns \<^verbatim>\<open>False\<close>.
\<close>

definition validate_directories ::
  "env \<Rightarrow> (string \<rightharpoonup> stored) directory option +
     string list directory \<times> (string \<rightharpoonup> stored) directory" where
  "validate_directories env =
     (case ensure_directory env ''input'' [] (input_dir env) of
        Inl e \<Rightarrow> Inl (output_dir env)
      | Inr inp \<Rightarrow>
          (case ensure_directory env ''output'' Map.empty (output_dir env) of
             Inl e \<Rightarrow> Inl (output_dir env)
           | Inr out \<Rightarrow>
               if \<not> d_read inp then Inl (Some out)
               else if \<not> d_write out then Inl (Some out)
               else Inr (inp, out)))"

definition get_output_filename :: "env \<Rightarrow> string" where
  "get_output_filename env = ''merged_pdf_'' @ timestamp env @ ''.pdf''"

text \<open>
  \<^verbatim>\<open>shutil.copy2(single_file, output_file)\<close> copies the bytes and then the metadata.
  \<open>Inr\<close> holds the bytes written, those of the source at that moment. \<open>Inl\<close> holds
  the exception and what the call has left at the destination: nothing when the
  source cannot be read or the destination cannot be opened, a truncated file when
  writing fails, the complete bytes when only the copy of the metadata fails.
\<close>

definition shutil_copy2 :: "env \<Rightarrow> string \<Rightarrow> exn \<times> stored option + nat list" where
  "shutil_copy2 env f =
     (case files (at_merge env) f of
        None \<Rightarrow> Inl (FileNotFoundError, None)
      | Some st \<Rightarrow>
          if \<not> r_ok st then Inl (PermissionError, None)
          else
            (case copy2_error env f of
               None \<Rightarrow> Inr (data st)
             | Some (e, Before_write) \<Rightarrow> Inl (e, None)
             | Some (e, During_write) \<Rightarrow> Inl (e, Some Truncated_file)
             | Some (e, After_write) \<Rightarrow> Inl (e, Some (File_bytes (data st)))))"

text \<open>How a run ends: each \<^verbatim>\<open>return\<close> of \<^verbatim>\<open>merge_pdfs\<close>, and the exception that leaves it.\<close>

datatype run_outcome =
  Requirements_not_met
| Directories_invalid
| Unexpected exn
| No_valid_files
| Single_copied string
| Single_copy_failed exn
| Merged merge_result

text \<open>What the merge leaves at the destination, given the entries before.\<close>

definition store_output ::
  "env \<Rightarrow> string \<Rightarrow> stored option \<Rightarrow> (string \<rightharpoonup> stored) \<Rightarrow> (string \<rightharpoonup> stored)" where
  "store_output env dest written es =
     (case written of
        None \<Rightarrow> es
      | Some Truncated_file \<Rightarrow> es(dest \<mapsto> Truncated_file)
      | Some s \<Rightarrow>
          if dest_after_write env = Absent then es(dest := None)
          else es(dest \<mapsto> s))"

text \<open>
  The run: its outcome, and the entries of the output directory at its end (none
  when the directory does not exist).
\<close>

definition entries_of :: "(string \<rightharpoonup> stored) directory option \<Rightarrow> (string \<rightharpoonup> stored)" where
  "entries_of d = (case d of None \<Rightarrow> Map.empty | Some dir \<Rightarrow> entries dir)"

definition merge_pdfs :: "env \<Rightarrow> run_outcome \<times> (string \<rightharpoonup> stored)" where
  "merge_pdfs env =
     (if \<not> check_system_requirements env then (Requirements_not_met, entries_of (output_dir env))
      else
        (case validate_directories env of
           Inl out \<Rightarrow> (Directories_invalid, entries_of out)
         | Inr (input, output) \<Rightarrow>
             (case find_and_validate_pdf_files (at_discovery env) input of
                Inl e \<Rightarrow> (Unexpected e, entries output)
              | Inr (pdf_files, warnings) \<Rightarrow>
                  if pdf_files = [] then (No_valid_files, entries output)
                  else if length pdf_files < 2 then
                    (let single_file = hd pdf_files in
                     case shutil_copy2 env single_file of
                       Inl (e, left) \<Rightarrow>
                         (Single_copy_failed e,
                          case left of
                            None \<Rightarrow> entries output
                          | Some s \<Rightarrow> (entries output)(single_file \<mapsto> s))
                     | Inr bytes \<Rightarrow>
                         (Single_copied single_file,
                          (entries output)(single_file \<mapsto> File_bytes bytes)))
                  else
                    (let sorted_files = sort_files_by_preference (str_lower env) pdf_files;
                         output_filename = get_output_filename env;
                         (result, written) = merge_pdf_files env sorted_files output_filename
                     in (Merged result,
                         store_output env output_filename written (entries output))))))"

section \<open>What one document adds\<close>

text \<open>
  The pages that the loop body appends to the writer for one file, and the exception
  that ends the body, if any. It is the loop body run on an empty writer.
\<close>

definition appended :: "env \<Rightarrow> string \<Rightarrow> page list \<times> exn option" where
  "appended env f =
     (case PdfReader (at_merge env) f of
        Inl e \<Rightarrow> ([], Some e)
      | Inr r \<Rightarrow>
          (case len_pages r of
             Inl e \<Rightarrow> ([], Some e)
           | Inr n \<Rightarrow> add_pages env r [0..<n] []))"

text \<open>
  The document is opened, counted and all its pages are added without an exception
  in the merge pass.
\<close>

definition merges_ok :: "env \<Rightarrow> string \<Rightarrow> bool" where
  "merges_ok env f = (snd (appended env f) = None)"

text \<open>The page count of a document in the merge pass, \<^verbatim>\<open>len(reader.pages)\<close>.\<close>

definition page_count_of :: "env \<Rightarrow> string \<Rightarrow> nat" where
  "page_count_of env f =
     (case PdfReader (at_merge env) f of
        Inl e \<Rightarrow> 0
      | Inr r \<Rightarrow> (case len_pages r of Inl e \<Rightarrow> 0 | Inr n \<Rightarrow> n))"

text \<open>The pages stored in a file, in their order, whether or not it can be merged.\<close>

fun pages_of_slots :: "(exn + page) list \<Rightarrow> page list" where
  "pages_of_slots [] = []"
| "pages_of_slots (Inl e # ss) = pages_of_slots ss"
| "pages_of_slots (Inr p # ss) = p # pages_of_slots ss"

definition stored_pages :: "filesystem \<Rightarrow> string \<Rightarrow> page list" where
  "stored_pages fs f =
     (case files fs f of
        None \<Rightarrow> []
      | Some st \<Rightarrow> (case pdf st of Inl e \<Rightarrow> [] | Inr r \<Rightarrow> pages_of_slots (slots r)))"

text \<open>\<^verbatim>\<open>pdf_file.stat()\<close> in the merge pass raises nothing.\<close>

definition stat_ok :: "env \<Rightarrow> string \<Rightarrow> bool" where
  "stat_ok env f = (case stat_st_size (at_merge env) f of Inl e \<Rightarrow> False | Inr sz \<Rightarrow> True)"

text \<open>The document gets an entry in the per-file list.\<close>

definition listed :: "env \<Rightarrow> string \<Rightarrow> bool" where
  "listed env f = (merges_ok env f \<and> stat_ok env f)"

text \<open>The entry of the per-file list for a document that gets one.\<close>

definition info_of :: "env \<Rightarrow> string \<Rightarrow> info" where
  "info_of env f =
     \<lparr>filename = f, pages = page_count_of env f,
      file_size = (case stat_st_size (at_merge env) f of Inl e \<Rightarrow> 0 | Inr sz \<Rightarrow> sz)\<rparr>"

text \<open>
  The exception that the outer \<^verbatim>\<open>except\<close> catches while the destination is opened
  and written, if any.
\<close>

definition serialization_error :: "env \<Rightarrow> string list \<Rightarrow> string \<Rightarrow> exn option" where
  "serialization_error env pdf_files dest =
     (case open_wb_error env dest of
        Some e \<Rightarrow> Some e
      | None \<Rightarrow> write_error env (st_writer (merge_loop env pdf_files initial_state)))"

section \<open>The validation predicates in the words of the specification\<close>

text \<open>
  The specification lists five predicates (section 4.3, step 3): existence, read
  permission, non-zero byte size, successful open by the codec, page count at least
  one. Each is defined on its own here, as the warning it gives when it fails;
  \<open>spec_validation\<close> applies them in this order and stops at the first that fails.
  These definitions follow the specification, not the source; the source's
  \<open>validate_one\<close> is compared with them below.
\<close>

type_synonym check = "filesystem \<Rightarrow> string \<Rightarrow> reject option"

definition check_exists :: check where
  "check_exists fs f = (if files fs f = None then Some Not_found else None)"

definition check_readable :: check where
  "check_readable fs f =
     (case files fs f of
        None \<Rightarrow> Some No_read_permission
      | Some st \<Rightarrow> if r_ok st then None else Some No_read_permission)"

definition check_nonempty :: check where
  "check_nonempty fs f =
     (case files fs f of
        None \<Rightarrow> Some Empty_file
      | Some st \<Rightarrow> if data st = [] then Some Empty_file else None)"

definition check_opens :: check where
  "check_opens fs f =
     (case PdfReader fs f of
        Inl e \<Rightarrow> Some (Invalid_pdf e)
      | Inr r \<Rightarrow> (case len_pages r of Inl e \<Rightarrow> Some (Invalid_pdf e) | Inr n \<Rightarrow> None))"

definition check_has_page :: check where
  "check_has_page fs f =
     (case PdfReader fs f of
        Inl e \<Rightarrow> Some No_pages
      | Inr r \<Rightarrow>
          (case len_pages r of
             Inl e \<Rightarrow> Some No_pages
           | Inr n \<Rightarrow> if 1 \<le> n then None else Some No_pages))"

fun first_failure :: "check list \<Rightarrow> check" where
  "first_failure [] fs f = None"
| "first_failure (c # cs) fs f =
     (case c fs f of Some r \<Rightarrow> Some r | None \<Rightarrow> first_failure cs fs f)"

definition spec_validation :: check where
  "spec_validation =
     first_failure [check_exists, check_readable, check_nonempty, check_opens, check_has_page]"

definition spec_warnings :: "filesystem \<Rightarrow> string list \<Rightarrow> (string \<times> reject) list" where
  "spec_warnings fs candidates =
     concat (map (\<lambda>f. case spec_validation fs f of None \<Rightarrow> [] | Some r \<Rightarrow> [(f, r)]) candidates)"

section \<open>Example environments\<close>

text \<open>
  A lower-casing of the letters \<^verbatim>\<open>A\<close> to \<^verbatim>\<open>Z\<close> that keeps every other byte. On
  names of ASCII characters it is \<^verbatim>\<open>str.lower()\<close>.
\<close>

definition ascii_lower_char :: "char \<Rightarrow> char" where
  "ascii_lower_char c =
     (if CHR ''A'' \<le> c \<and> c \<le> CHR ''Z'' then char_of (of_char c + (32::nat)) else c)"

definition ascii_lower :: "string \<Rightarrow> string" where
  "ascii_lower s = map ascii_lower_char s"

text \<open>A readable file that the codec opens and that holds the given pages.\<close>

definition pdf_with :: "page list \<Rightarrow> file_state" where
  "pdf_with ps =
     \<lparr>r_ok = True, data = [37, 80, 68, 70],
      pdf = Inr \<lparr>len_error = None, slots = map Inr ps\<rparr>\<rparr>"

definition example_files :: filesystem where
  "example_files = \<lparr>files = map_of
     [(''a.pdf'', pdf_with [Page 1, Page 2]),
      (''B.pdf'', pdf_with [Page 3]),
      (''C.pdf'', pdf_with [Page 4, Page 5]),
      (''zero.pdf'', pdf_with []),
      (''empty.pdf'', \<lparr>r_ok = True, data = [], pdf = Inl (Exn ''EmptyFileError'' ''empty file'')\<rparr>),
      (''locked.pdf'', (pdf_with [Page 6, Page 7])\<lparr>r_ok := False\<rparr>),
      (''bad.pdf'', \<lparr>r_ok = True, data = [0, 1], pdf = Inl (Exn ''PdfReadError'' ''no EOF marker'')\<rparr>)],
     exists_error = (\<lambda>f. None),
     stat_error = (\<lambda>f. None)\<rparr>"

definition example_env :: env where
  "example_env =
     \<lparr>pypdf2_importable = True,
      input_dir = Some \<lparr>d_read = True, d_write = True,
        entries = [''B.pdf'', ''a.pdf'', ''notes.txt'', ''C.pdf'']\<rparr>,
      output_dir = Some \<lparr>d_read = True, d_write = True, entries = Map.empty\<rparr>,
      mkdir = (\<lambda>d. Inr (True, True)),
      at_discovery = example_files,
      at_merge = example_files,
      add_page_error = (\<lambda>p. None),
      open_wb_error = (\<lambda>f. None),
      write_error = (\<lambda>ps. None),
      dest_after_write = Present 2048,
      copy2_error = (\<lambda>f. None),
      str_lower = ascii_lower,
      timestamp = ''20240131_120000'',
      time_start = 100,
      time_end = 107\<rparr>"

definition example_listing :: "string list directory" where
  "example_listing =
     \<lparr>d_read = True, d_write = True,
      entries = [''zero.pdf'', ''a.pdf'', ''gone.pdf'', ''locked.pdf'', ''notes.txt'',
                 ''empty.pdf'', ''bad.pdf'', ''B.pdf'']\<rparr>"

text \<open>
  The codec opens \<^verbatim>\<open>a.pdf\<close> and counts its two pages, but \<^verbatim>\<open>add_page\<close> raises on
  the second page.
\<close>

definition env_broken_page :: env where
  "env_broken_page =
     example_env\<lparr>add_page_error :=
       (\<lambda>p. if p = Page 2 then Some (Exn ''PdfReadError'' ''broken object'') else None)\<rparr>"

text \<open>After discovery, \<^verbatim>\<open>a.pdf\<close> loses its read permission.\<close>

definition env_unreadable :: env where
  "env_unreadable =
     example_env\<lparr>at_merge :=
       example_files\<lparr>files :=
         (files example_files)(''a.pdf'' \<mapsto> (pdf_with [Page 1, Page 2])\<lparr>r_ok := False\<rparr>)\<rparr>\<rparr>"


text \<open>Input directories with one valid document and with none.\<close>

definition env_single :: env where
  "env_single =
     example_env\<lparr>input_dir := Some \<lparr>d_read = True, d_write = True,
       entries = [''zero.pdf'', ''a.pdf'', ''notes.txt'']\<rparr>\<rparr>"

text \<open>
  The output directory already holds a write-protected file of the same name, so the
  copy cannot open its destination.
\<close>

definition env_single_protected :: env where
  "env_single_protected =
     env_single\<lparr>
       output_dir := Some \<lparr>d_read = True, d_write = True,
         entries = [''a.pdf'' \<mapsto> File_bytes [1, 2, 3]]\<rparr>,
       copy2_error :=
         (\<lambda>f. Some (Exn ''PermissionError'' ''Permission denied'', Before_write))\<rparr>"

definition env_none_valid :: env where
  "env_none_valid =
     example_env\<lparr>input_dir := Some \<lparr>d_read = True, d_write = True,
       entries = [''zero.pdf'', ''empty.pdf'', ''notes.txt'']\<rparr>\<rparr>"

text \<open>
  After discovery \<^verbatim>\<open>a.pdf\<close> loses its read permission, and \<^verbatim>\<open>add_page\<close> raises on
  the second page of \<^verbatim>\<open>C.pdf\<close>.
\<close>

definition env_mixed :: env where
  "env_mixed =
     env_unreadable\<lparr>add_page_error :=
       (\<lambda>p. if p = Page 5 then Some (Exn ''PdfReadError'' ''broken object'') else None)\<rparr>"

text \<open>
  The input directory may be listed but not searched (mode 0444): \<^verbatim>\<open>os.access\<close> with
  \<^verbatim>\<open>R_OK\<close> holds for it and \<^verbatim>\<open>glob\<close> lists its entries, but \<^verbatim>\<open>exists()\<close> raises
  \<^verbatim>\<open>PermissionError\<close> on each of them.
\<close>

definition env_unsearchable :: env where
  "env_unsearchable =
     example_env\<lparr>at_discovery :=
       example_files\<lparr>exists_error :=
         (\<lambda>f. Some (Exn ''PermissionError'' ''Permission denied''))\<rparr>\<rparr>"

text \<open>
  In the merge pass \<^verbatim>\<open>PdfReader\<close> reads \<^verbatim>\<open>a.pdf\<close>, and the file is removed before
  \<^verbatim>\<open>pdf_file.stat()\<close> is called.
\<close>

definition env_stat_fails :: env where
  "env_stat_fails =
     example_env\<lparr>at_merge :=
       example_files\<lparr>stat_error :=
         (\<lambda>f. if f = ''a.pdf'' then Some FileNotFoundError else None)\<rparr>\<rparr>"

text \<open>The write succeeds, and \<^verbatim>\<open>output_file.stat()\<close> raises after it.\<close>

definition env_dest_stat_fails :: env where
  "env_dest_stat_fails =
     example_env\<lparr>dest_after_write := Stat_raises (Exn ''OSError'' ''Input/output error'')\<rparr>"

section \<open>The merge loop, file by file\<close>

lemma add_pages_append:
  "add_pages env r is w = (w @ fst (add_pages env r is []), snd (add_pages env r is []))"
proof (induction "is" arbitrary: w)
  case Nil
  then show ?case by simp
next
  case (Cons i "is")
  show ?case
    apply (simp add: add_page_def split: sum.splits option.splits)
    using Cons.IH [of "w @ [_]"] Cons.IH [of "[_]"]
    by (metis append.assoc append_Cons append_Nil fst_conv snd_conv)
qed

lemma add_pages_all:
  "snd (add_pages env r is []) = None \<Longrightarrow>
     fst (add_pages env r is []) = pages_of_slots (map (get_page r) is) \<and>
     length (fst (add_pages env r is [])) = length is"
proof (induction "is")
  case Nil
  then show ?case by simp
next
  case (Cons i "is")
  from Cons.prems obtain p where p: "get_page r i = Inr p" "add_page_error env p = None"
    by (auto simp: add_page_def split: sum.splits option.splits)
  have step: "add_pages env r (i # is) [] =
      ([p] @ fst (add_pages env r is []), snd (add_pages env r is []))"
    using p add_pages_append [of env r "is" "[p]"] by (simp add: add_page_def)
  with Cons.prems have "snd (add_pages env r is []) = None" by simp
  with Cons.IH have ih: "fst (add_pages env r is []) = pages_of_slots (map (get_page r) is)"
    "length (pages_of_slots (map (get_page r) is)) = length is" by auto
  show ?case unfolding step using ih p by simp
qed

lemma map_get_page: "map (get_page r) [0..<length (slots r)] = slots r"
  by (rule nth_equalityI) (simp_all add: get_page_def)

lemma PdfReader_Inr_exists:
  "PdfReader fs f = Inr r \<Longrightarrow> \<exists>st. files fs f = Some st \<and> r_ok st \<and> pdf st = Inr r"
  by (auto simp: PdfReader_def split: option.splits if_splits)

lemma appended_ok:
  assumes "merges_ok env f"
  shows "fst (appended env f) = stored_pages (at_merge env) f"
    and "length (fst (appended env f)) = page_count_of env f"
proof -
  from assms obtain r where r: "PdfReader (at_merge env) f = Inr r"
    by (auto simp: merges_ok_def appended_def split: sum.splits)
  from assms r have n: "len_pages r = Inr (length (slots r))"
    by (auto simp: merges_ok_def appended_def len_pages_def split: sum.splits option.splits)
  from assms r n have ok: "snd (add_pages env r [0..<length (slots r)] []) = None"
    by (simp add: merges_ok_def appended_def)
  from PdfReader_Inr_exists [OF r] obtain st
    where st: "files (at_merge env) f = Some st" "pdf st = Inr r"
    by blast
  from add_pages_all [OF ok]
  have a: "fst (add_pages env r [0..<length (slots r)] []) =
      pages_of_slots (map (get_page r) [0..<length (slots r)])"
    and b: "length (fst (add_pages env r [0..<length (slots r)] [])) =
      length [0..<length (slots r)]"
    by blast+
  from a have c: "fst (add_pages env r [0..<length (slots r)] []) = pages_of_slots (slots r)"
    by (simp only: map_get_page)
  from b have d: "length (fst (add_pages env r [0..<length (slots r)] [])) = length (slots r)"
    by (simp only: length_upt diff_zero)
  from r n st c show "fst (appended env f) = stored_pages (at_merge env) f"
    by (simp add: appended_def stored_pages_def)
  from r n d show "length (fst (appended env f)) = page_count_of env f"
    by (simp add: appended_def page_count_of_def)
qed

lemma merge_one_writer:
  "st_writer (merge_one env f st) = st_writer st @ fst (appended env f)"
  using add_pages_append [of env _ _ "st_writer st"]
  by (auto simp: merge_one_def appended_def log_failure_def Let_def
      split: sum.splits option.splits prod.splits)

text \<open>The counter is increased before \<^verbatim>\<open>stat\<close> is called, whatever \<^verbatim>\<open>stat\<close> does.\<close>

lemma merge_one_total_pages:
  "st_total_pages (merge_one env f st) =
     st_total_pages st + (if merges_ok env f then page_count_of env f else 0)"
  using add_pages_append [of env _ _ "st_writer st"]
  by (auto simp: merge_one_def appended_def merges_ok_def page_count_of_def log_failure_def Let_def
      split: sum.splits option.splits prod.splits)

lemma merge_one_file_info:
  "st_file_info (merge_one env f st) =
     st_file_info st @ (if listed env f then [info_of env f] else [])"
  using add_pages_append [of env _ _ "st_writer st"]
  by (auto simp: merge_one_def appended_def merges_ok_def listed_def stat_ok_def
        page_count_of_def info_of_def log_failure_def Let_def
      split: sum.splits option.splits prod.splits if_splits)

lemma merge_one_failed:
  "st_failed (merge_one env f st) =
     st_failed st @
     (case snd (appended env f) of
        Some e \<Rightarrow> [(f, e)]
      | None \<Rightarrow> (case stat_st_size (at_merge env) f of Inl e \<Rightarrow> [(f, e)] | Inr sz \<Rightarrow> []))"
  using add_pages_append [of env _ _ "st_writer st"]
  by (auto simp: merge_one_def appended_def log_failure_def Let_def
      split: sum.splits option.splits prod.splits if_splits)

lemma merge_loop_writer:
  "st_writer (merge_loop env fs st) = st_writer st @ concat (map (\<lambda>f. fst (appended env f)) fs)"
  by (induction fs arbitrary: st) (simp_all add: merge_one_writer)

lemma merge_loop_total_pages:
  "st_total_pages (merge_loop env fs st) =
     st_total_pages st + sum_list (map (page_count_of env) (filter (merges_ok env) fs))"
  by (induction fs arbitrary: st) (simp_all add: merge_one_total_pages)

lemma merge_loop_file_info:
  "st_file_info (merge_loop env fs st) =
     st_file_info st @ map (info_of env) (filter (listed env) fs)"
  by (induction fs arbitrary: st) (simp_all add: merge_one_file_info)


lemma concat_appended:
  "\<forall>f\<in>set fs. merges_ok env f \<or> fst (appended env f) = [] \<Longrightarrow>
     concat (map (\<lambda>f. fst (appended env f)) fs) =
     concat (map (stored_pages (at_merge env)) (filter (merges_ok env) fs))"
  by (induction fs) (auto simp: appended_ok(1))



lemma merge_loop_append:
  "merge_loop env (xs @ ys) st = merge_loop env ys (merge_loop env xs st)"
  by (induction xs arbitrary: st) simp_all

lemma validate_directories_entries:
  "validate_directories env = Inr (inp, out) \<Longrightarrow> entries out = entries_of (output_dir env)"
  by (auto simp: validate_directories_def ensure_directory_def entries_of_def
      split: sum.splits option.splits if_splits prod.splits)

text \<open>
  Where no document fails after one of its pages was added, the writer holds as many
  pages as the counter says.
\<close>

lemma written_without_partial_failure:
  assumes "\<forall>f\<in>set pdf_files. merges_ok env f \<or> fst (appended env f) = []"
  shows "length (st_writer (merge_loop env pdf_files initial_state)) =
     st_total_pages (merge_loop env pdf_files initial_state)"
  using assms
  by (induction pdf_files rule: rev_induct)
    (auto simp: merge_loop_append merge_one_writer merge_one_total_pages initial_state_def
      appended_ok(2))

text \<open>
  A document that cannot be opened, or whose pages cannot be counted, changes nothing
  but the log: the loop goes on as if the document had not been in the list.
\<close>

lemma open_failure_is_skipped:
  assumes "fst (appended env f) = []" and "\<not> merges_ok env f"
  shows "st_writer (merge_loop env (before @ f # rest) st) =
           st_writer (merge_loop env (before @ rest) st)"
    and "st_total_pages (merge_loop env (before @ f # rest) st) =
           st_total_pages (merge_loop env (before @ rest) st)"
    and "st_file_info (merge_loop env (before @ f # rest) st) =
           st_file_info (merge_loop env (before @ rest) st)"
  using assms
  by (simp_all add: merge_loop_writer merge_loop_total_pages merge_loop_file_info listed_def)

text \<open>
  Where \<^verbatim>\<open>stat\<close> raises for no document whose pages were added, the counter is the
  sum of the \<^verbatim>\<open>pages\<close> fields of the per-file list, and the list names the documents
  that were processed without failure, in processing order.
\<close>

lemma bookkeeping_when_stat_succeeds:
  assumes "\<forall>f\<in>set pdf_files. merges_ok env f \<longrightarrow> stat_ok env f"
  shows "st_total_pages (merge_loop env pdf_files initial_state) =
           sum_list (map pages (st_file_info (merge_loop env pdf_files initial_state)))"
    and "map filename (st_file_info (merge_loop env pdf_files initial_state)) =
           filter (merges_ok env) pdf_files"
proof -
  from assms have eq: "filter (listed env) pdf_files = filter (merges_ok env) pdf_files"
    by (induction pdf_files) (auto simp: listed_def)
  have pg: "map pages (map (info_of env) xs) = map (page_count_of env) xs" for xs
    by (simp add: info_of_def)
  have fn: "map filename (map (info_of env) xs) = xs" for xs
    by (induction xs) (simp_all add: info_of_def)
  show "st_total_pages (merge_loop env pdf_files initial_state) =
           sum_list (map pages (st_file_info (merge_loop env pdf_files initial_state)))"
    by (simp add: merge_loop_total_pages merge_loop_file_info initial_state_def eq pg
        del: map_map)
  show "map filename (st_file_info (merge_loop env pdf_files initial_state)) =
           filter (merges_ok env) pdf_files"
    by (simp add: merge_loop_file_info initial_state_def eq fn del: map_map)
qed

section \<open>Discovery\<close>

text \<open>
  Where \<^verbatim>\<open>exists()\<close> and \<^verbatim>\<open>stat()\<close> raise nothing, the body of the validation loop
  is the five predicates of the specification, applied in their order with the first
  failure deciding.
\<close>

lemma validate_one_spec:
  "exists_error fs f = None \<Longrightarrow> stat_error fs f = None \<Longrightarrow>
     validate_one fs f = Inr (spec_validation fs f)"
  by (auto simp: validate_one_def spec_validation_def check_exists_def check_readable_def
      check_nonempty_def check_opens_def check_has_page_def path_exists_def os_access_R_OK_def
      stat_st_size_def PdfReader_def
      split: option.splits sum.splits)

lemma validate_loop_spec:
  "\<forall>f\<in>set cs. exists_error fs f = None \<and> stat_error fs f = None \<Longrightarrow>
   validate_loop fs cs (valid, ws) =
     Inr (valid @ filter (\<lambda>f. spec_validation fs f = None) cs, ws @ spec_warnings fs cs)"
  by (induction cs arbitrary: valid ws)
    (auto simp: validate_one_spec spec_warnings_def split: option.splits)

lemma find_and_validate_spec:
  "\<forall>f\<in>set (glob_pdf (entries input)). exists_error fs f = None \<and> stat_error fs f = None \<Longrightarrow>
   find_and_validate_pdf_files fs input =
     Inr (filter (\<lambda>f. spec_validation fs f = None) (glob_pdf (entries input)),
          spec_warnings fs (glob_pdf (entries input)))"
  by (simp add: find_and_validate_pdf_files_def Let_def validate_loop_spec spec_warnings_def)

lemma zero_pages_rejected:
  "PdfReader fs f = Inr r \<Longrightarrow> len_pages r = Inr 0 \<Longrightarrow> spec_validation fs f \<noteq> None"
  by (auto simp: spec_validation_def check_exists_def check_readable_def
      check_nonempty_def check_opens_def check_has_page_def PdfReader_def
      split: option.splits sum.splits if_splits)

lemma discovery_example:
  "find_and_validate_pdf_files example_files example_listing =
     Inr ([''a.pdf'', ''B.pdf''],
          [(''zero.pdf'', No_pages), (''gone.pdf'', Not_found),
           (''locked.pdf'', No_read_permission), (''empty.pdf'', Empty_file),
           (''bad.pdf'', Invalid_pdf (Exn ''PdfReadError'' ''no EOF marker''))])"
  by code_simp

text \<open>
  Claim C6 says that discovery goes on with the remaining candidates whatever a
  candidate does, and never ends as a whole. The theorem evaluates the code where
  this is not so. The input directory may be listed but not searched: it passes
  \<^verbatim>\<open>validate_directories\<close>, and \<^verbatim>\<open>glob\<close> gives the three candidates. On the first
  of them \<^verbatim>\<open>pdf_file.exists()\<close>, which stands outside the \<^verbatim>\<open>try\<close> block, raises
  \<^verbatim>\<open>PermissionError\<close>. The exception leaves the loop and the function: no candidate
  is skipped with a warning, no list of valid files is returned, and the run ends
  with the exception. Where \<^verbatim>\<open>exists()\<close> and \<^verbatim>\<open>stat()\<close> raise nothing, the
  predicates are applied in the order of the claim and discovery returns
  (\<open>find_and_validate_spec\<close>).
\<close>

theorem discovery_aborts_on_exists_error:
  "check_system_requirements env_unsearchable \<and>
   glob_pdf [''B.pdf'', ''a.pdf'', ''notes.txt'', ''C.pdf''] = [''B.pdf'', ''a.pdf'', ''C.pdf''] \<and>
   validate_one (at_discovery env_unsearchable) ''B.pdf'' =
     Inl (Exn ''PermissionError'' ''Permission denied'') \<and>
   find_and_validate_pdf_files (at_discovery env_unsearchable)
     \<lparr>d_read = True, d_write = True,
      entries = [''B.pdf'', ''a.pdf'', ''notes.txt'', ''C.pdf'']\<rparr> =
     Inl (Exn ''PermissionError'' ''Permission denied'') \<and>
   fst (merge_pdfs env_unsearchable) = Unexpected (Exn ''PermissionError'' ''Permission denied'')"
  by code_simp

section \<open>The ordering policy\<close>

lemma set_sort_files: "set (sort_files_by_preference lower xs) = set xs"
  by (simp add: sort_files_by_preference_def sorted_py_def)

text \<open>
  Claim C3. \<^verbatim>\<open>sort_files_by_preference\<close> returns the discovered files sorted by their
  lower-cased name, ascending: the lower-cased names of the result are in order, the
  result holds the same files as the input, and the files whose lower-cased names are
  equal keep the order they had in the input. This holds whatever \<^verbatim>\<open>str.lower()\<close>
  does to a name. As \<^verbatim>\<open>str.lower()\<close> turns \<^verbatim>\<open>B.pdf\<close>, \<^verbatim>\<open>a.pdf\<close> and \<^verbatim>\<open>C.pdf\<close> into
  \<^verbatim>\<open>b.pdf\<close>, \<^verbatim>\<open>a.pdf\<close> and \<^verbatim>\<open>c.pdf\<close>, these three names are processed in the order
  \<^verbatim>\<open>a.pdf\<close>, \<^verbatim>\<open>B.pdf\<close>, \<^verbatim>\<open>C.pdf\<close>.
\<close>

theorem sort_files_by_preference_policy:
  "sorted (map lower (sort_files_by_preference lower pdf_files)) \<and>
   mset (sort_files_by_preference lower pdf_files) = mset pdf_files \<and>
   filter (\<lambda>x. lower x = k) (sort_files_by_preference lower pdf_files) =
     filter (\<lambda>x. lower x = k) pdf_files \<and>
   (lower ''B.pdf'' = ''b.pdf'' \<and> lower ''a.pdf'' = ''a.pdf'' \<and> lower ''C.pdf'' = ''c.pdf'' \<longrightarrow>
      sort_files_by_preference lower [''B.pdf'', ''a.pdf'', ''C.pdf''] =
        [''a.pdf'', ''B.pdf'', ''C.pdf''])"
proof (intro conjI impI)
  show "sorted (map lower (sort_files_by_preference lower pdf_files))"
    by (simp add: sort_files_by_preference_def sorted_py_def sorted_sort_key)
  show "mset (sort_files_by_preference lower pdf_files) = mset pdf_files"
    by (simp add: sort_files_by_preference_def sorted_py_def)
  show "filter (\<lambda>x. lower x = k) (sort_files_by_preference lower pdf_files) =
     filter (\<lambda>x. lower x = k) pdf_files"
    by (simp add: sort_files_by_preference_def sorted_py_def sort_key_stable)
next
  assume k: "lower ''B.pdf'' = ''b.pdf'' \<and> lower ''a.pdf'' = ''a.pdf'' \<and>
    lower ''C.pdf'' = ''c.pdf''"
  have ab: "''a.pdf'' \<le> ''b.pdf''" and ac: "''a.pdf'' \<le> ''c.pdf''"
    and bc: "''b.pdf'' \<le> ''c.pdf''" and ba: "\<not> ''b.pdf'' \<le> ''a.pdf''"
    by code_simp+
  have "insort_key lower ''a.pdf'' [''C.pdf''] = [''a.pdf'', ''C.pdf'']"
    using k ac by simp
  moreover have "insort_key lower ''B.pdf'' [''a.pdf'', ''C.pdf''] =
      [''a.pdf'', ''B.pdf'', ''C.pdf'']"
    using k ba bc by simp
  ultimately
  show "sort_files_by_preference lower [''B.pdf'', ''a.pdf'', ''C.pdf''] =
        [''a.pdf'', ''B.pdf'', ''C.pdf'']"
    by (simp add: sort_files_by_preference_def sorted_py_def)
qed

theorem sort_files_by_preference_policy_witness:
  "ascii_lower ''B.pdf'' = ''b.pdf'' \<and> ascii_lower ''a.pdf'' = ''a.pdf'' \<and>
   ascii_lower ''C.pdf'' = ''c.pdf'' \<and>
   sort_files_by_preference ascii_lower [''B.pdf'', ''a.pdf'', ''C.pdf''] =
     [''a.pdf'', ''B.pdf'', ''C.pdf'']"
proof -
  have k: "ascii_lower ''B.pdf'' = ''b.pdf'' \<and> ascii_lower ''a.pdf'' = ''a.pdf'' \<and>
    ascii_lower ''C.pdf'' = ''c.pdf''"
    by code_simp
  with sort_files_by_preference_policy [of ascii_lower "[]" "[]"] show ?thesis
    by blast
qed

section \<open>The merge engine\<close>

text \<open>
  Claim C1 says that the merged output has as many pages as the documents that did not
  fail hold together, and that this number is \<^verbatim>\<open>total_pages\<close>. The theorem evaluates
  the code where this is not so. Both \<^verbatim>\<open>a.pdf\<close> (two pages) and \<^verbatim>\<open>B.pdf\<close> (one
  page) pass validation. In the merge pass \<^verbatim>\<open>add_page\<close> raises on the second page
  of \<^verbatim>\<open>a.pdf\<close>: the file is skipped and not counted, but its first page is already
  in the writer. The result is successful with \<^verbatim>\<open>total_pages\<close> 1, and the written
  document has two pages. Where no document fails after one of its pages was added,
  the two numbers agree (\<open>written_without_partial_failure\<close>).
\<close>

theorem partial_append_page_count:
  "validate_one (at_discovery env_broken_page) ''a.pdf'' = Inr None \<and>
   validate_one (at_discovery env_broken_page) ''B.pdf'' = Inr None \<and>
   filter (merges_ok env_broken_page) [''a.pdf'', ''B.pdf''] = [''B.pdf''] \<and>
   page_count_of env_broken_page ''B.pdf'' = 1 \<and>
   merge_pdf_files env_broken_page [''a.pdf'', ''B.pdf''] ''merged.pdf'' =
     (Success ''merged.pdf'' 1 2 2048 7 [\<lparr>filename = ''B.pdf'', pages = 1, file_size = 4\<rparr>],
      Some (Merged_pdf [Page 1, Page 3])) \<and>
   length [Page 1, Page 3] \<noteq>
     total_pages (fst (merge_pdf_files env_broken_page [''a.pdf'', ''B.pdf''] ''merged.pdf''))"
  by code_simp

text \<open>
  Claim C2, amended. When no document fails after one of its pages was added, the
  pages in the writer after the loop are the pages of the documents that are
  processed without failure, document by document in the order given, each
  document's pages in the order in which the file stores them. A document that fails
  adds no page.
\<close>

theorem page_order_of_merged_documents:
  assumes "\<forall>f\<in>set pdf_files. merges_ok env f \<or> fst (appended env f) = []"
  shows "st_writer (merge_loop env pdf_files initial_state) =
     concat (map (stored_pages (at_merge env)) (filter (merges_ok env) pdf_files))"
  using concat_appended [OF assms] by (simp add: merge_loop_writer initial_state_def)

theorem page_order_of_merged_documents_witness:
  "\<not> merges_ok env_unreadable ''a.pdf'' \<and> fst (appended env_unreadable ''a.pdf'') = [] \<and>
   merges_ok env_unreadable ''C.pdf'' \<and> merges_ok env_unreadable ''B.pdf'' \<and>
   st_writer (merge_loop env_unreadable [''C.pdf'', ''a.pdf'', ''B.pdf''] initial_state) =
     [Page 4, Page 5, Page 3]"
proof -
  have h: "\<not> merges_ok env_unreadable ''a.pdf''" "fst (appended env_unreadable ''a.pdf'') = []"
    "merges_ok env_unreadable ''C.pdf''" "merges_ok env_unreadable ''B.pdf''"
    by code_simp+
  then have "\<forall>f\<in>set [''C.pdf'', ''a.pdf'', ''B.pdf''].
      merges_ok env_unreadable f \<or> fst (appended env_unreadable f) = []"
    by simp
  from page_order_of_merged_documents [OF this]
  have "st_writer (merge_loop env_unreadable [''C.pdf'', ''a.pdf'', ''B.pdf''] initial_state) =
     concat (map (stored_pages (at_merge env_unreadable))
       (filter (merges_ok env_unreadable) [''C.pdf'', ''a.pdf'', ''B.pdf'']))" .
  also have "\<dots> = [Page 4, Page 5, Page 3]" by code_simp
  finally show ?thesis using h by simp
qed

text \<open>
  The claim as it is written fails for \<^verbatim>\<open>a.pdf\<close>, \<^verbatim>\<open>B.pdf\<close>, \<^verbatim>\<open>C.pdf\<close> in
  \<open>env_mixed\<close>: \<^verbatim>\<open>a.pdf\<close> cannot be opened and is skipped, \<^verbatim>\<open>C.pdf\<close> fails on its
  second page. The writer holds pages 3 and 4. This is neither the pages of all three
  documents nor the pages of the one document that did not fail.
\<close>

theorem skipped_document_counterexample:
  "st_writer (merge_loop env_mixed [''a.pdf'', ''B.pdf'', ''C.pdf''] initial_state) =
     [Page 3, Page 4] \<and>
   concat (map (stored_pages (at_merge env_mixed)) [''a.pdf'', ''B.pdf'', ''C.pdf'']) =
     [Page 1, Page 2, Page 3, Page 4, Page 5] \<and>
   concat (map (stored_pages (at_merge env_mixed))
     (filter (merges_ok env_mixed) [''a.pdf'', ''B.pdf'', ''C.pdf''])) = [Page 3]"
  by code_simp

text \<open>
  Claim C7 says that a document that fails in the merge pass, at opening or while its
  pages are appended, is skipped and adds nothing to the final page count. The theorem
  evaluates the code where this is not so; the defect is that of claim C1.
  \<^verbatim>\<open>a.pdf\<close> passes validation and is opened in the merge pass, and \<^verbatim>\<open>add_page\<close>
  raises on its second page. After the loop body the failure is logged, the counter
  and the per-file list are as before, but the first page of \<^verbatim>\<open>a.pdf\<close> is in the
  writer: the document written for \<^verbatim>\<open>a.pdf\<close> and \<^verbatim>\<open>B.pdf\<close> has one page more than
  the document written for \<^verbatim>\<open>B.pdf\<close> alone. A document that cannot be opened is
  skipped as the claim says (\<open>open_failure_is_skipped\<close>).
\<close>

theorem append_failure_leaves_pages:
  "validate_one (at_discovery env_broken_page) ''a.pdf'' = Inr None \<and>
   PdfReader (at_merge env_broken_page) ''a.pdf'' =
     Inr \<lparr>len_error = None, slots = [Inr (Page 1), Inr (Page 2)]\<rparr> \<and>
   merge_one env_broken_page ''a.pdf'' initial_state =
     \<lparr>st_writer = [Page 1], st_total_pages = 0, st_file_info = [],
      st_failed = [(''a.pdf'', Exn ''PdfReadError'' ''broken object'')]\<rparr> \<and>
   snd (merge_pdf_files env_broken_page [''a.pdf'', ''B.pdf''] ''merged.pdf'') =
     Some (Merged_pdf [Page 1, Page 3]) \<and>
   snd (merge_pdf_files env_broken_page [''B.pdf''] ''merged.pdf'') =
     Some (Merged_pdf [Page 3])"
  by code_simp

text \<open>
  Claim C8, amended. The result of \<^verbatim>\<open>merge_pdf_files\<close> is a failure in these
  situations and in no other. An exception raised inside the outer \<^verbatim>\<open>try\<close>, that is
  while the destination is opened or written, or afterwards by \<^verbatim>\<open>exists()\<close> or
  \<^verbatim>\<open>stat()\<close> on the destination, gives a failure with the text and the type name of
  the exception. When nothing is raised and the destination does not exist after the
  write, the result is a failure with the text \<^verbatim>\<open>Output file not created\<close> and no type
  name. Otherwise the result is successful and holds the size of the destination. No
  failure of a single document in the loop leads to a failure result.
\<close>

theorem merge_result_outcomes:
  "fst (merge_pdf_files env pdf_files dest) =
     (case serialization_error env pdf_files dest of
        Some e \<Rightarrow> Failure (exn_str e) (Some (exn_type e))
      | None \<Rightarrow>
          (case dest_after_write env of
             Exists_raises e \<Rightarrow> Failure (exn_str e) (Some (exn_type e))
           | Absent \<Rightarrow> Failure ''Output file not created'' None
           | Stat_raises e \<Rightarrow> Failure (exn_str e) (Some (exn_type e))
           | Present sz \<Rightarrow>
               Success dest (st_total_pages (merge_loop env pdf_files initial_state))
                 (length pdf_files) sz (time_end env - time_start env)
                 (st_file_info (merge_loop env pdf_files initial_state)))) \<and>
   success (fst (merge_pdf_files env pdf_files dest)) =
     (serialization_error env pdf_files dest = None \<and>
      (\<exists>sz. dest_after_write env = Present sz))"
  by (simp add: merge_pdf_files_def serialization_error_def failure_of_def dest_exists_def
      dest_st_size_def Let_def split: option.splits dest_check.splits)

text \<open>The outcomes on the example files.\<close>

lemma merge_result_examples:
  "fst (merge_pdf_files
     (example_env\<lparr>open_wb_error := (\<lambda>f. Some (Exn ''PermissionError'' ''Permission denied''))\<rparr>)
     [''a.pdf'', ''B.pdf''] ''merged.pdf'') =
     Failure ''Permission denied'' (Some ''PermissionError'')"
  "fst (merge_pdf_files
     (example_env\<lparr>write_error := (\<lambda>ps. Some (Exn ''OSError'' ''No space left on device''))\<rparr>)
     [''a.pdf'', ''B.pdf''] ''merged.pdf'') =
     Failure ''No space left on device'' (Some ''OSError'')"
  "fst (merge_pdf_files (example_env\<lparr>dest_after_write := Absent\<rparr>)
     [''a.pdf'', ''B.pdf''] ''merged.pdf'') =
     Failure ''Output file not created'' None"
  "fst (merge_pdf_files
     (example_env\<lparr>dest_after_write := Exists_raises (Exn ''PermissionError'' ''Permission denied'')\<rparr>)
     [''a.pdf'', ''B.pdf''] ''merged.pdf'') =
     Failure ''Permission denied'' (Some ''PermissionError'')"
  "merge_pdf_files example_env [''a.pdf'', ''B.pdf''] ''merged.pdf'' =
     (Success ''merged.pdf'' 3 2 2048 7
        [\<lparr>filename = ''a.pdf'', pages = 2, file_size = 4\<rparr>,
         \<lparr>filename = ''B.pdf'', pages = 1, file_size = 4\<rparr>],
      Some (Merged_pdf [Page 1, Page 2, Page 3]))"
  by code_simp+

text \<open>
  The claim as it is written names two situations of failure. In
  \<open>env_dest_stat_fails\<close> there is a third: opening and writing the destination raise
  nothing, \<^verbatim>\<open>exists()\<close> returns \<^verbatim>\<open>True\<close>, and \<^verbatim>\<open>stat()\<close> raises. The result is a
  failure with the text and the type name of that exception.
\<close>

theorem verification_failure_counterexample:
  "serialization_error env_dest_stat_fails [''a.pdf'', ''B.pdf''] ''merged.pdf'' = None \<and>
   dest_exists env_dest_stat_fails = Inr True \<and>
   fst (merge_pdf_files env_dest_stat_fails [''a.pdf'', ''B.pdf''] ''merged.pdf'') =
     Failure ''Input/output error'' (Some ''OSError'')"
  by code_simp



text \<open>
  Claim C10 says that in a successful result \<^verbatim>\<open>total_pages\<close> is the sum of the
  \<^verbatim>\<open>pages\<close> fields of \<^verbatim>\<open>file_info\<close>. The theorem evaluates the code where this is not
  so. In the merge pass \<^verbatim>\<open>a.pdf\<close> is opened and its two pages are added; the counter
  is increased (line 178), and then \<^verbatim>\<open>pdf_file.stat()\<close>, called while the entry of
  the per-file list is built (line 182), raises. The inner \<^verbatim>\<open>except\<close> logs the
  failure and the loop goes on: \<^verbatim>\<open>a.pdf\<close> is counted but not listed. The result is
  successful with \<^verbatim>\<open>total_pages\<close> 3, and its per-file list holds \<^verbatim>\<open>B.pdf\<close> alone,
  with one page. Where \<^verbatim>\<open>stat\<close> raises for no document whose pages were added, the
  counter is the sum of the list (\<open>bookkeeping_when_stat_succeeds\<close>);
  \<^verbatim>\<open>total_files\<close> is always the number of documents given.
\<close>

theorem stat_failure_counted_not_listed:
  "validate_one (at_discovery env_stat_fails) ''a.pdf'' = Inr None \<and>
   merges_ok env_stat_fails ''a.pdf'' \<and>
   stat_st_size (at_merge env_stat_fails) ''a.pdf'' = Inl FileNotFoundError \<and>
   merge_pdf_files env_stat_fails [''a.pdf'', ''B.pdf''] ''merged.pdf'' =
     (Success ''merged.pdf'' 3 2 2048 7 [\<lparr>filename = ''B.pdf'', pages = 1, file_size = 4\<rparr>],
      Some (Merged_pdf [Page 1, Page 2, Page 3])) \<and>
   total_pages (fst (merge_pdf_files env_stat_fails [''a.pdf'', ''B.pdf''] ''merged.pdf'')) \<noteq>
     sum_list (map pages
       (file_info (fst (merge_pdf_files env_stat_fails [''a.pdf'', ''B.pdf''] ''merged.pdf''))))"
  by code_simp

section \<open>The run\<close>

text \<open>
  Claim C5. When the run reaches discovery and discovery finds no valid document, the
  run ends with the outcome \<open>No_valid_files\<close>: \<^verbatim>\<open>merge_pdf_files\<close> is not called, and
  the entries of the output directory are those it had before the run.
\<close>

theorem no_valid_files_aborts:
  assumes "check_system_requirements env"
    and "validate_directories env = Inr (inp, out)"
    and "find_and_validate_pdf_files (at_discovery env) inp = Inr ([], ws)"
  shows "merge_pdfs env = (No_valid_files, entries_of (output_dir env))"
  using assms validate_directories_entries [OF assms(2)]
  by (simp add: merge_pdfs_def)

theorem no_valid_files_aborts_witness:
  "check_system_requirements env_none_valid \<and>
   find_and_validate_pdf_files (at_discovery env_none_valid)
     \<lparr>d_read = True, d_write = True, entries = [''zero.pdf'', ''empty.pdf'', ''notes.txt'']\<rparr> =
     Inr ([], [(''zero.pdf'', No_pages), (''empty.pdf'', Empty_file)]) \<and>
   fst (merge_pdfs env_none_valid) = No_valid_files \<and>
   snd (merge_pdfs env_none_valid) = Map.empty"
proof -
  have r: "check_system_requirements env_none_valid" by code_simp
  have d: "validate_directories env_none_valid =
      Inr (\<lparr>d_read = True, d_write = True, entries = [''zero.pdf'', ''empty.pdf'', ''notes.txt'']\<rparr>,
           \<lparr>d_read = True, d_write = True, entries = Map.empty\<rparr>)"
    by (simp add: validate_directories_def ensure_directory_def env_none_valid_def example_env_def)
  have f: "find_and_validate_pdf_files (at_discovery env_none_valid)
     \<lparr>d_read = True, d_write = True, entries = [''zero.pdf'', ''empty.pdf'', ''notes.txt'']\<rparr> =
     Inr ([], [(''zero.pdf'', No_pages), (''empty.pdf'', Empty_file)])"
    by code_simp
  have o: "entries_of (output_dir env_none_valid) = Map.empty"
    by (simp add: entries_of_def env_none_valid_def example_env_def)
  from no_valid_files_aborts [OF r d f] r f o show ?thesis by simp
qed

text \<open>
  Claim C4, amended. When the run reaches discovery and discovery finds exactly one
  valid document, \<^verbatim>\<open>merge_pdf_files\<close> is not called and no result dictionary is made;
  \<^verbatim>\<open>shutil.copy2\<close> is called to copy the file to the output directory under its own
  name. When the call raises nothing, the output directory has under that name a file
  with the bytes of the source. When the call raises, the exception is logged, and
  under that name the output directory has what the failed call left: what was there
  before, a truncated file, or the complete bytes when only the copy of the metadata
  failed. In both cases every other entry of the output directory is as before.
\<close>

theorem single_file_is_copied:
  assumes "check_system_requirements env"
    and "validate_directories env = Inr (inp, out)"
    and "find_and_validate_pdf_files (at_discovery env) inp = Inr ([f], ws)"
  shows "(\<forall>bytes. shutil_copy2 env f = Inr bytes \<longrightarrow>
            merge_pdfs env =
              (Single_copied f, (entries_of (output_dir env))(f \<mapsto> File_bytes bytes)) \<and>
            (\<exists>st. files (at_merge env) f = Some st \<and> bytes = data st)) \<and>
         (\<forall>e left. shutil_copy2 env f = Inl (e, left) \<longrightarrow>
            fst (merge_pdfs env) = Single_copy_failed e \<and>
            snd (merge_pdfs env) f =
              (case left of None \<Rightarrow> entries_of (output_dir env) f | Some s \<Rightarrow> Some s) \<and>
            (left = None \<or> left = Some Truncated_file \<or>
             (\<exists>st. files (at_merge env) f = Some st \<and> left = Some (File_bytes (data st))))) \<and>
         (\<forall>g. g \<noteq> f \<longrightarrow> snd (merge_pdfs env) g = entries_of (output_dir env) g) \<and>
         (\<forall>r. fst (merge_pdfs env) \<noteq> Merged r)"
proof (intro conjI allI impI)
  fix bytes assume c: "shutil_copy2 env f = Inr bytes"
  with assms validate_directories_entries [OF assms(2)]
  show "merge_pdfs env =
      (Single_copied f, (entries_of (output_dir env))(f \<mapsto> File_bytes bytes))"
    by (simp add: merge_pdfs_def)
  from c show "\<exists>st. files (at_merge env) f = Some st \<and> bytes = data st"
    by (auto simp: shutil_copy2_def split: option.splits if_splits prod.splits copy_stage.splits)
next
  fix e left assume c: "shutil_copy2 env f = Inl (e, left)"
  with assms validate_directories_entries [OF assms(2)]
  show "fst (merge_pdfs env) = Single_copy_failed e"
    by (simp add: merge_pdfs_def split: option.splits)
  from c assms validate_directories_entries [OF assms(2)]
  show "snd (merge_pdfs env) f =
      (case left of None \<Rightarrow> entries_of (output_dir env) f | Some s \<Rightarrow> Some s)"
    by (simp add: merge_pdfs_def split: option.splits)
  from c show "left = None \<or> left = Some Truncated_file \<or>
      (\<exists>st. files (at_merge env) f = Some st \<and> left = Some (File_bytes (data st)))"
    by (auto simp: shutil_copy2_def split: option.splits if_splits prod.splits copy_stage.splits)
next
  fix g assume "g \<noteq> f"
  with assms validate_directories_entries [OF assms(2)]
  show "snd (merge_pdfs env) g = entries_of (output_dir env) g"
    by (simp add: merge_pdfs_def split: sum.splits prod.splits option.splits)
next
  fix r
  from assms show "fst (merge_pdfs env) \<noteq> Merged r"
    by (simp add: merge_pdfs_def split: sum.splits prod.splits)
qed

theorem single_file_is_copied_witness:
  "check_system_requirements env_single \<and>
   find_and_validate_pdf_files (at_discovery env_single)
     \<lparr>d_read = True, d_write = True, entries = [''zero.pdf'', ''a.pdf'', ''notes.txt'']\<rparr> =
     Inr ([''a.pdf''], [(''zero.pdf'', No_pages)]) \<and>
   shutil_copy2 env_single ''a.pdf'' = Inr [37, 80, 68, 70] \<and>
   merge_pdfs env_single =
     (Single_copied ''a.pdf'', [''a.pdf'' \<mapsto> File_bytes [37, 80, 68, 70]]) \<and>
   shutil_copy2 env_single_protected ''a.pdf'' =
     Inl (Exn ''PermissionError'' ''Permission denied'', None) \<and>
   fst (merge_pdfs env_single_protected) =
     Single_copy_failed (Exn ''PermissionError'' ''Permission denied'') \<and>
   snd (merge_pdfs env_single_protected) ''a.pdf'' = Some (File_bytes [1, 2, 3]) \<and>
   snd (merge_pdfs env_single_protected) ''other.pdf'' = None"
proof -
  let ?inp = "\<lparr>d_read = True, d_write = True,
    entries = [''zero.pdf'', ''a.pdf'', ''notes.txt'']\<rparr>"
  have r: "check_system_requirements env_single"
    "check_system_requirements env_single_protected"
    by code_simp+
  have d: "validate_directories env_single =
      Inr (?inp, \<lparr>d_read = True, d_write = True, entries = Map.empty\<rparr>)"
    "validate_directories env_single_protected =
      Inr (?inp, \<lparr>d_read = True, d_write = True,
        entries = [''a.pdf'' \<mapsto> File_bytes [1, 2, 3]]\<rparr>)"
    by (simp_all add: validate_directories_def ensure_directory_def env_single_def
        env_single_protected_def example_env_def)
  have f: "find_and_validate_pdf_files (at_discovery env_single) ?inp =
      Inr ([''a.pdf''], [(''zero.pdf'', No_pages)])"
    "find_and_validate_pdf_files (at_discovery env_single_protected) ?inp =
      Inr ([''a.pdf''], [(''zero.pdf'', No_pages)])"
    by code_simp+
  have c: "shutil_copy2 env_single ''a.pdf'' = Inr [37, 80, 68, 70]"
    "shutil_copy2 env_single_protected ''a.pdf'' =
       Inl (Exn ''PermissionError'' ''Permission denied'', None)"
    by code_simp+
  have o: "entries_of (output_dir env_single) = Map.empty"
    "entries_of (output_dir env_single_protected) = [''a.pdf'' \<mapsto> File_bytes [1, 2, 3]]"
    by (simp_all add: entries_of_def env_single_def env_single_protected_def example_env_def)
  note t1 = single_file_is_copied [OF r(1) d(1) f(1)]
  note t2 = single_file_is_copied [OF r(2) d(2) f(2)]
  from t1 c(1) o(1)
  have a: "merge_pdfs env_single =
      (Single_copied ''a.pdf'', [''a.pdf'' \<mapsto> File_bytes [37, 80, 68, 70]])"
    by simp
  from t2
  have "shutil_copy2 env_single_protected ''a.pdf'' = Inl (e, left) \<Longrightarrow>
      fst (merge_pdfs env_single_protected) = Single_copy_failed e \<and>
      snd (merge_pdfs env_single_protected) ''a.pdf'' =
        (case left of None \<Rightarrow> entries_of (output_dir env_single_protected) ''a.pdf''
         | Some s \<Rightarrow> Some s)" for e left
    by blast
  from this [OF c(2)] o(2)
  have b: "fst (merge_pdfs env_single_protected) =
      Single_copy_failed (Exn ''PermissionError'' ''Permission denied'')"
    "snd (merge_pdfs env_single_protected) ''a.pdf'' = Some (File_bytes [1, 2, 3])"
    by simp_all
  from t2 have "g \<noteq> ''a.pdf'' \<Longrightarrow>
      snd (merge_pdfs env_single_protected) g =
        entries_of (output_dir env_single_protected) g" for g
    by blast
  from this [of "''other.pdf''"] o(2)
  have g: "snd (merge_pdfs env_single_protected) ''other.pdf'' = None"
    by simp
  from a b g r f c show ?thesis by simp
qed

text \<open>
  The claim as it is written fails where the copy raises. In \<open>env_single_protected\<close>
  the one valid document is \<^verbatim>\<open>a.pdf\<close> with the bytes 37, 80, 68, 70; the output
  directory holds a write-protected file of that name, the copy raises, and after the
  run the file in the output directory still has its old bytes.
\<close>

theorem single_copy_fails_counterexample:
  "check_system_requirements env_single_protected \<and>
   find_and_validate_pdf_files (at_discovery env_single_protected)
     \<lparr>d_read = True, d_write = True, entries = [''zero.pdf'', ''a.pdf'', ''notes.txt'']\<rparr> =
     Inr ([''a.pdf''], [(''zero.pdf'', No_pages)]) \<and>
   files (at_merge env_single_protected) ''a.pdf'' = Some (pdf_with [Page 1, Page 2]) \<and>
   data (pdf_with [Page 1, Page 2]) = [37, 80, 68, 70] \<and>
   fst (merge_pdfs env_single_protected) =
     Single_copy_failed (Exn ''PermissionError'' ''Permission denied'') \<and>
   snd (merge_pdfs env_single_protected) ''a.pdf'' = Some (File_bytes [1, 2, 3])"
  by code_simp

end
